theory Spec2Isabelle
  imports Main "HOL-Library.Word" "HOL-Library.Dlist"
begin

section \<open>The BLE device session of pygatt (\<open>src/pygatt/device.py\<close>)\<close>

text \<open>
  \<open>BLEDevice\<close> keeps a catalog of discovered services, a table of callbacks per value
  handle and a table of the characteristic configuration last written per value handle.
  The model below is a shallow embedding of \<open>get_handle\<close>, \<open>_notification_handles\<close>,
  \<open>subscribe\<close>, \<open>unsubscribe\<close> and \<open>receive_notification\<close>: every method takes
  the device and returns the device it leaves behind together with either the exception
  it raises (\<open>Inl\<close>) or its return value (\<open>Inr\<close>); \<open>receive_notification\<close>, which runs
  the callbacks, may also never return. Calls of \<open>log\<close> are left out. The lock is taken
  and released inside one method; the model runs one thread, and what the lock does to a
  callback that calls the device again is part of what a callback can do.
\<close>

subsection \<open>Data\<close>

text \<open>A \<open>uuid.UUID\<close> is its 128-bit integer; \<open>==\<close> on two of them compares it.\<close>

type_synonym uuid = "128 word"

text \<open>A \<open>bytearray\<close>.\<close>

type_synonym bytes = "8 word list"

text \<open>
  \<open>get_handle\<close> takes each UUID as \<open>str or UUID\<close> and tells them apart with
  \<open>isinstance(_, string_type)\<close>.
\<close>

datatype uuid_arg = Str string | Obj uuid

text \<open>
  The classes of the objects that \<open>discover\<close> returns are not in \<open>device.py\<close>, which
  reads \<open>srvc_obj.characteristics\<close> (a dict) and \<open>characteristic.handle\<close> and compares
  the objects with UUIDs. A dict is iterated in the order of its entries, so it is a list
  of (key, value) pairs here; \<open>__find_char\<close> never looks at the keys.
\<close>

datatype characteristic = Characteristic (c_uuid: uuid) (handle: int)

datatype service = Service (s_uuid: uuid) (characteristics: "(string \<times> characteristic) list")

type_synonym catalog = "(string \<times> service) list"

text \<open>
  Modelled from the spec: \<open>Characteristic.__eq__\<close> is missing; \<open>char_obj == char_uuid\<close>
  holds when the UUID of the characteristic equals the requested one (``a characteristic
  whose UUID equals characteristic_uuid'').
\<close>

definition characteristic_eq :: "characteristic \<Rightarrow> uuid \<Rightarrow> bool" where
  "characteristic_eq char_obj char_uuid \<longleftrightarrow> c_uuid char_obj = char_uuid"

text \<open>
  Modelled from the spec: \<open>Service.__eq__\<close> is missing; \<open>srvc_uuid == srvc_obj\<close> holds
  when the UUID of the service equals the requested one (``the service whose UUID equals
  service_uuid'').
\<close>

definition service_eq :: "uuid \<Rightarrow> service \<Rightarrow> bool" where
  "service_eq srvc_uuid srvc_obj \<longleftrightarrow> srvc_uuid = s_uuid srvc_obj"

text \<open>
  The exceptions: \<open>ValueError\<close> is what \<open>UUID(..)\<close> raises on a string that is no UUID
  (the spec's InvalidUuid), \<open>BLEError\<close> with its message is what \<open>get_handle\<close> raises
  (the spec's CharacteristicNotFound), \<open>Raised\<close> is any exception of the backend or of
  a callback, by name.
\<close>

datatype exn = ValueError | BLEError string | Raised string

text \<open>
  What the device asks of the outside, in the order it asks: \<open>self.discover()\<close>,
  \<open>self.char_write_handle(handle, value, wait_for_response)\<close> and
  \<open>callback(handle, value)\<close>.
\<close>

datatype 'cb event = Discover | Write int bytes bool | Call 'cb int bytes

text \<open>
  How a call of a callback, and so a call of \<open>receive_notification\<close>, ends: it returns,
  it raises, or it never returns.
\<close>

datatype outcome = Returns | Raises exn | Blocks

text \<open>
  The outside: the constructor and \<open>str\<close> of \<open>uuid.UUID\<close>, the two methods a backend
  overrides (\<open>char_write_handle\<close> raises \<open>NotImplementedError\<close> in \<open>BLEDevice\<close> itself,
  \<open>discover\<close> is not defined there) and the behaviour of a callback. The two methods
  run on a state \<open>'w\<close> of the outside and either raise or return.

  A callback is any callable, and \<open>receive_notification\<close> calls it while it holds
  \<open>self._lock\<close>, a \<open>threading.Lock\<close>, which the thread that holds it cannot take again.
  Through the methods of the device the callback can call \<open>get_handle\<close> or \<open>char_write\<close>,
  which take no lock and may put the result of a new \<open>discover()\<close> in place of
  \<open>_services\<close>; it can call \<open>subscribe\<close>, \<open>unsubscribe\<close> or \<open>receive_notification\<close>, which
  then wait for the lock for ever; and it can raise. So \<open>call\<close> takes the catalog and
  the state of the outside and gives how the call ends and the catalog and the outside
  it leaves. \<open>_callbacks\<close> and \<open>_subscribed_handlers\<close> are written inside the lock only: no
  callback changes them through the methods of the device.
\<close>

record ('w, 'cb) env =
  UUID :: "string \<Rightarrow> uuid option"
  str :: "uuid \<Rightarrow> string"
  discover :: "'w \<Rightarrow> (exn + catalog) \<times> 'w"
  char_write_handle :: "int \<Rightarrow> bytes \<Rightarrow> bool \<Rightarrow> 'w \<Rightarrow> exn option \<times> 'w"
  call :: "'cb \<Rightarrow> int \<Rightarrow> bytes \<Rightarrow> catalog \<Rightarrow> 'w \<Rightarrow> outcome \<times> catalog \<times> 'w"

text \<open>
  The fields of \<open>BLEDevice.__init__\<close> (\<open>_callbacks\<close> is a \<open>defaultdict(set)\<close>: a set is
  a list without duplicates, iterated in the order of the list), then the state of the
  outside and the calls made to it so far.
\<close>

record ('w, 'cb) device =
  address :: string
  services :: catalog
  callbacks :: "int \<rightharpoonup> 'cb dlist"
  subscribed_handlers :: "int \<rightharpoonup> bytes"
  world :: 'w
  trace :: "'cb event list"

definition init :: "string \<Rightarrow> 'w \<Rightarrow> ('w, 'cb) device" where
  "init addr w =
     \<lparr>address = addr, services = [], callbacks = Map.empty,
      subscribed_handlers = Map.empty, world = w, trace = []\<rparr>"

subsection \<open>\<open>__find_char\<close> and \<open>get_handle\<close>\<close>

fun find_in_characteristics :: "(string \<times> characteristic) list \<Rightarrow> uuid \<Rightarrow> characteristic option" where
  "find_in_characteristics [] char_uuid = None"
| "find_in_characteristics ((char_uuid_str, char_obj) # rest) char_uuid =
     (if characteristic_eq char_obj char_uuid then Some char_obj
      else find_in_characteristics rest char_uuid)"

fun find_char :: "catalog \<Rightarrow> uuid \<Rightarrow> uuid option \<Rightarrow> characteristic option" where
  "find_char [] char_uuid srvc_uuid = None"
| "find_char ((srvc_uuid_str, srvc_obj) # rest) char_uuid srvc_uuid =
     (if (case srvc_uuid of None \<Rightarrow> True | Some u \<Rightarrow> service_eq u srvc_obj) then
        (case find_in_characteristics (characteristics srvc_obj) char_uuid of
           Some char_obj \<Rightarrow> Some char_obj
         | None \<Rightarrow> find_char rest char_uuid srvc_uuid)
      else find_char rest char_uuid srvc_uuid)"

text \<open>\<open>if isinstance(char_uuid, string_type): char_uuid = UUID(char_uuid)\<close>\<close>

definition to_uuid :: "('w, 'cb) env \<Rightarrow> uuid_arg \<Rightarrow> exn + uuid" where
  "to_uuid E a =
     (case a of
        Str s \<Rightarrow> (case UUID E s of None \<Rightarrow> Inl ValueError | Some u \<Rightarrow> Inr u)
      | Obj u \<Rightarrow> Inr u)"

text \<open>\<open>if srvc_uuid is not None and isinstance(srvc_uuid, string_type): ...\<close>\<close>

definition to_uuid_opt :: "('w, 'cb) env \<Rightarrow> uuid_arg option \<Rightarrow> exn + uuid option" where
  "to_uuid_opt E a =
     (case a of
        None \<Rightarrow> Inr None
      | Some x \<Rightarrow> (case to_uuid E x of Inl e \<Rightarrow> Inl e | Inr u \<Rightarrow> Inr (Some u)))"

text \<open>
  \<open>"No characteristic found matching %s %s" % (char_uuid, srvc_uuid if srvc_uuid is not None else '')\<close>
\<close>

definition message :: "('w, 'cb) env \<Rightarrow> uuid \<Rightarrow> uuid option \<Rightarrow> string" where
  "message E char_uuid srvc_uuid =
     ''No characteristic found matching '' @ str E char_uuid @ '' '' @
     (case srvc_uuid of None \<Rightarrow> '''' | Some u \<Rightarrow> str E u)"

text \<open>
  \<open>self._services = self.discover()\<close>: the call is recorded; when it raises, the
  assignment does not happen.
\<close>

definition refresh :: "('w, 'cb) env \<Rightarrow> ('w, 'cb) device \<Rightarrow> (exn + unit) \<times> ('w, 'cb) device" where
  "refresh E self =
     (case discover E (world self) of
        (Inl e, w) \<Rightarrow> (Inl e, self\<lparr>world := w, trace := trace self @ [Discover]\<rparr>)
      | (Inr found, w) \<Rightarrow>
          (Inr (), self\<lparr>services := found, world := w, trace := trace self @ [Discover]\<rparr>))"

text \<open>The part of \<open>get_handle\<close> after the two UUIDs are normalised.\<close>

definition lookup_handle ::
  "('w, 'cb) env \<Rightarrow> uuid \<Rightarrow> uuid option \<Rightarrow> ('w, 'cb) device \<Rightarrow> (exn + int) \<times> ('w, 'cb) device" where
  "lookup_handle E char_uuid srvc_uuid self =
     (case (if find_char (services self) char_uuid srvc_uuid = None then refresh E self
            else (Inr (), self)) of
        (Inl e, self1) \<Rightarrow> (Inl e, self1)
      | (Inr _, self1) \<Rightarrow>
          (case find_char (services self1) char_uuid srvc_uuid of
             None \<Rightarrow> (Inl (BLEError (message E char_uuid srvc_uuid)), self1)
           | Some characteristic \<Rightarrow> (Inr (handle characteristic), self1)))"

definition get_handle ::
  "('w, 'cb) env \<Rightarrow> uuid_arg \<Rightarrow> uuid_arg option \<Rightarrow> ('w, 'cb) device \<Rightarrow> (exn + int) \<times> ('w, 'cb) device" where
  "get_handle E char_uuid srvc_uuid self =
     (case to_uuid E char_uuid of
        Inl e \<Rightarrow> (Inl e, self)
      | Inr cu \<Rightarrow>
          (case to_uuid_opt E srvc_uuid of
             Inl e \<Rightarrow> (Inl e, self)
           | Inr su \<Rightarrow> lookup_handle E cu su self))"

subsection \<open>\<open>subscribe\<close> and \<open>unsubscribe\<close>\<close>

definition notification_handles ::
  "('w, 'cb) env \<Rightarrow> uuid_arg \<Rightarrow> uuid_arg option \<Rightarrow> ('w, 'cb) device
     \<Rightarrow> (exn + int \<times> int) \<times> ('w, 'cb) device" where
  "notification_handles E uuid srvc_uuid self =
     (case get_handle E uuid srvc_uuid self of
        (Inl e, self1) \<Rightarrow> (Inl e, self1)
      | (Inr value_handle, self1) \<Rightarrow> (Inr (value_handle, value_handle + 1), self1))"

text \<open>\<open>self.char_write_handle(handle, value, wait_for_response=...)\<close>, recorded.\<close>

definition write_handle ::
  "('w, 'cb) env \<Rightarrow> int \<Rightarrow> bytes \<Rightarrow> bool \<Rightarrow> ('w, 'cb) device \<Rightarrow> (exn + unit) \<times> ('w, 'cb) device" where
  "write_handle E h v wait_for_response self =
     (case char_write_handle E h v wait_for_response (world self) of
        (r, w) \<Rightarrow>
          ((case r of Some e \<Rightarrow> Inl e | None \<Rightarrow> Inr ()),
           self\<lparr>world := w, trace := trace self @ [Write h v wait_for_response]\<rparr>))"

text \<open>\<open>self._callbacks[value_handle].add(callback)\<close> on a \<open>defaultdict(set)\<close>.\<close>

definition add_callback :: "int \<Rightarrow> 'cb \<Rightarrow> ('w, 'cb) device \<Rightarrow> ('w, 'cb) device" where
  "add_callback value_handle callback self =
     self\<lparr>callbacks := (callbacks self)(value_handle \<mapsto>
       Dlist.insert callback
         (case callbacks self value_handle of None \<Rightarrow> Dlist.empty | Some cbs \<Rightarrow> cbs))\<rparr>"

definition subscribe ::
  "('w, 'cb) env \<Rightarrow> uuid_arg \<Rightarrow> uuid_arg option \<Rightarrow> 'cb option \<Rightarrow> bool \<Rightarrow> ('w, 'cb) device
     \<Rightarrow> (exn + unit) \<times> ('w, 'cb) device" where
  "subscribe E uuid srvc_uuid callback indication self =
     (case notification_handles E uuid srvc_uuid self of
        (Inl e, self1) \<Rightarrow> (Inl e, self1)
      | (Inr (value_handle, characteristic_config_handle), self1) \<Rightarrow>
          (let properties = [if indication then 0x2 else 0x1, 0x0];
               self2 = (case callback of
                          None \<Rightarrow> self1
                        | Some cb \<Rightarrow> add_callback value_handle cb self1)
           in if subscribed_handlers self2 value_handle \<noteq> Some properties then
                (case write_handle E characteristic_config_handle properties False self2 of
                   (Inl e, self3) \<Rightarrow> (Inl e, self3)
                 | (Inr _, self3) \<Rightarrow>
                     (Inr (), self3\<lparr>subscribed_handlers :=
                        (subscribed_handlers self3)(value_handle \<mapsto> properties)\<rparr>))
              else (Inr (), self2)))"

text \<open>\<open>unsubscribe(self, uuid)\<close> has no \<open>srvc_uuid\<close>: it calls \<open>_notification_handles(uuid)\<close>.\<close>

definition unsubscribe ::
  "('w, 'cb) env \<Rightarrow> uuid_arg \<Rightarrow> ('w, 'cb) device \<Rightarrow> (exn + unit) \<times> ('w, 'cb) device" where
  "unsubscribe E uuid self =
     (case notification_handles E uuid None self of
        (Inl e, self1) \<Rightarrow> (Inl e, self1)
      | (Inr (value_handle, characteristic_config_handle), self1) \<Rightarrow>
          (let properties = [0x0, 0x0];
               self2 = (if value_handle \<in> dom (callbacks self1)
                        then self1\<lparr>callbacks := (callbacks self1)(value_handle := None)\<rparr>
                        else self1)
           in if value_handle \<in> dom (subscribed_handlers self2) then
                write_handle E characteristic_config_handle properties False
                  (self2\<lparr>subscribed_handlers :=
                     (subscribed_handlers self2)(value_handle := None)\<rparr>)
              else (Inr (), self2)))"

subsection \<open>\<open>receive_notification\<close>\<close>

text \<open>\<open>callback(handle, value)\<close>: how it ends, and the device once it has ended.\<close>

definition result_of ::
  "('w, 'cb) env \<Rightarrow> 'cb \<Rightarrow> int \<Rightarrow> bytes \<Rightarrow> ('w, 'cb) device \<Rightarrow> outcome" where
  "result_of E callback h v self = fst (call E callback h v (services self) (world self))"

definition called ::
  "('w, 'cb) env \<Rightarrow> 'cb \<Rightarrow> int \<Rightarrow> bytes \<Rightarrow> ('w, 'cb) device \<Rightarrow> ('w, 'cb) device" where
  "called E callback h v self =
     (case call E callback h v (services self) (world self) of
        (out, cat, w) \<Rightarrow>
          self\<lparr>services := cat, world := w, trace := trace self @ [Call callback h v]\<rparr>)"

text \<open>
  \<open>for callback in self._callbacks[handle]: callback(handle, value)\<close>: there is no
  \<open>try\<close> around the call, so a callback that raises ends the loop and the method, as
  does one that never returns.
\<close>

fun invoke_all ::
  "('w, 'cb) env \<Rightarrow> 'cb list \<Rightarrow> int \<Rightarrow> bytes \<Rightarrow> ('w, 'cb) device \<Rightarrow> outcome \<times> ('w, 'cb) device" where
  "invoke_all E [] h v self = (Returns, self)"
| "invoke_all E (callback # rest) h v self =
     (if result_of E callback h v self = Returns
      then invoke_all E rest h v (called E callback h v self)
      else (result_of E callback h v self, called E callback h v self))"

definition receive_notification ::
  "('w, 'cb) env \<Rightarrow> int \<Rightarrow> bytes \<Rightarrow> ('w, 'cb) device \<Rightarrow> outcome \<times> ('w, 'cb) device" where
  "receive_notification E h v self =
     (case callbacks self h of
        None \<Rightarrow> (Returns, self)
      | Some cbs \<Rightarrow> invoke_all E (list_of_dlist cbs) h v self)"

subsection \<open>A peer and a backend to run the model on\<close>

text \<open>
  The Heart Rate service with its Heart Rate Measurement characteristic, and the Battery
  service, by their Bluetooth UUIDs.
\<close>

definition heart_rate :: uuid where
  "heart_rate = 0x0000180d00001000800000805f9b34fb"

definition battery :: uuid where
  "battery = 0x0000180f00001000800000805f9b34fb"

definition hr_measurement :: uuid where
  "hr_measurement = 0x00002a3700001000800000805f9b34fb"

definition known_uuids :: "(string \<times> uuid) list" where
  "known_uuids =
     [(''0000180d-0000-1000-8000-00805f9b34fb'', heart_rate),
      (''0000180f-0000-1000-8000-00805f9b34fb'', battery),
      (''00002a37-0000-1000-8000-00805f9b34fb'', hr_measurement)]"

text \<open>One service with the characteristic at handle 10.\<close>

definition catalog_hr :: catalog where
  "catalog_hr =
     [(''180d'', Service heart_rate [(''2a37'', Characteristic hr_measurement 10)])]"

text \<open>Two services that both have a characteristic with the same UUID, at handles 10 and 20.\<close>

definition catalog_two :: catalog where
  "catalog_two =
     [(''180d'', Service heart_rate [(''2a37'', Characteristic hr_measurement 10)]),
      (''180f'', Service battery [(''2a37'', Characteristic hr_measurement 20)])]"

text \<open>
  A backend whose state is the catalog of the peer and the number of writes that will
  still fail: \<open>discover\<close> returns the catalog, a write raises while that number is
  positive. \<open>UUID\<close> and \<open>str\<close> know the three UUIDs above. A callback is a number:
  the odd ones raise; callback 6 calls \<open>get_handle\<close> for a UUID that no catalog has,
  which puts the catalog of the peer in place of the one the device holds, and returns;
  callback 8 calls \<open>unsubscribe\<close> and waits for the lock; the other even ones return.
\<close>

definition demo_env :: "(catalog \<times> nat, nat) env" where
  "demo_env =
     \<lparr>UUID = map_of known_uuids,
      str = (\<lambda>u. case find (\<lambda>(s, u'). u' = u) known_uuids of
                   None \<Rightarrow> ''?'' | Some (s, _) \<Rightarrow> s),
      discover = (\<lambda>(cat, n). (Inr cat, (cat, n))),
      char_write_handle = (\<lambda>h v r (cat, n).
         if n = 0 then (None, (cat, n)) else (Some (Raised ''TransportError''), (cat, n - 1))),
      call = (\<lambda>cb h v cat (peer, n).
         if cb = 6 then (Returns, peer, (peer, n))
         else if cb = 8 then (Blocks, cat, (peer, n))
         else if even cb then (Returns, cat, (peer, n))
         else (Raises (Raised ''callback''), cat, (peer, n)))\<rparr>"

text \<open>A device that has discovered \<open>known\<close>, connected to a peer with the catalog \<open>peer\<close>.\<close>

definition demo_device :: "catalog \<Rightarrow> catalog \<Rightarrow> nat \<Rightarrow> (catalog \<times> nat, nat) device" where
  "demo_device known peer failing = (init ''00:11:22:33:44:55'' (peer, failing))\<lparr>services := known\<rparr>"

text \<open>That device after \<open>subscribe\<close> with callback 2 for the characteristic at handle 10.\<close>

definition subscribed_device :: "(catalog \<times> nat, nat) device" where
  "subscribed_device =
     (demo_device catalog_hr catalog_hr 0)
       \<lparr>callbacks := [10 \<mapsto> Dlist.insert 2 Dlist.empty],
        subscribed_handlers := [10 \<mapsto> [0x1, 0x0]],
        trace := [Write 11 [0x1, 0x0] False]\<rparr>"

text \<open>
  The device with the two services after \<open>subscribe\<close> with callback 2 for the
  characteristic of the Battery service, at handle 20.
\<close>

definition battery_subscribed :: "(catalog \<times> nat, nat) device" where
  "battery_subscribed =
     (demo_device catalog_two catalog_two 0)
       \<lparr>callbacks := [20 \<mapsto> Dlist.insert 2 Dlist.empty],
        subscribed_handlers := [20 \<mapsto> [0x1, 0x0]],
        trace := [Write 21 [0x1, 0x0] False]\<rparr>"

text \<open>
  Devices with callbacks registered for handle 10: callback 1, which raises, alone;
  callbacks 3 and 1, which both raise; callbacks 2, 1 and 4, called in this order;
  callbacks 4, 8 and 2, called in this order.
\<close>

definition raising_device :: "(catalog \<times> nat, nat) device" where
  "raising_device =
     (demo_device catalog_hr catalog_hr 0)\<lparr>callbacks := [10 \<mapsto> Dlist.insert 1 Dlist.empty]\<rparr>"

definition two_raising_device :: "(catalog \<times> nat, nat) device" where
  "two_raising_device =
     (demo_device catalog_hr catalog_hr 0)
       \<lparr>callbacks := [10 \<mapsto> Dlist.insert 3 (Dlist.insert 1 Dlist.empty)]\<rparr>"

definition mixed_device :: "(catalog \<times> nat, nat) device" where
  "mixed_device =
     (demo_device catalog_hr catalog_hr 0)
       \<lparr>callbacks := [10 \<mapsto> Dlist.insert 2 (Dlist.insert 1 (Dlist.insert 4 Dlist.empty))]\<rparr>"

definition blocking_device :: "(catalog \<times> nat, nat) device" where
  "blocking_device =
     (demo_device catalog_hr catalog_hr 0)
       \<lparr>callbacks := [10 \<mapsto> Dlist.insert 4 (Dlist.insert 8 (Dlist.insert 2 Dlist.empty))]\<rparr>"

text \<open>
  A device that holds the catalog with one service while the peer has the one with two,
  with callbacks 6 and 2 registered for handle 10, called in this order.
\<close>

definition resolving_device :: "(catalog \<times> nat, nat) device" where
  "resolving_device =
     (demo_device catalog_hr catalog_two 0)
       \<lparr>callbacks := [10 \<mapsto> Dlist.insert 6 (Dlist.insert 2 Dlist.empty)]\<rparr>"

subsection \<open>Reading the trace\<close>

fun is_Write :: "'cb event \<Rightarrow> bool" where
  "is_Write (Write _ _ _) = True"
| "is_Write _ = False"

definition writes :: "'cb event list \<Rightarrow> 'cb event list" where
  "writes tr = filter is_Write tr"

definition refreshes :: "'cb event list \<Rightarrow> nat" where
  "refreshes tr = count_list tr Discover"

text \<open>
  The spec's ``present in the catalog'': some service, the one with the given UUID when a
  service UUID is given, has a characteristic with the requested UUID.
\<close>

definition present :: "catalog \<Rightarrow> uuid \<Rightarrow> uuid option \<Rightarrow> bool" where
  "present cat char_uuid srvc_uuid \<longleftrightarrow>
     list_ex (\<lambda>(k, sv). (srvc_uuid = None \<or> srvc_uuid = Some (s_uuid sv)) \<and>
        list_ex (\<lambda>(k', ch). c_uuid ch = char_uuid) (characteristics sv)) cat"

text \<open>
  The characteristics that the spec's search can return: those with the requested UUID,
  in the services with the given UUID when a service UUID is given and in all services
  otherwise, in the order of the catalog.
\<close>

definition chars_matching :: "(string \<times> characteristic) list \<Rightarrow> uuid \<Rightarrow> characteristic list" where
  "chars_matching cs char_uuid = filter (\<lambda>ch. c_uuid ch = char_uuid) (map snd cs)"

definition matching :: "catalog \<Rightarrow> uuid \<Rightarrow> uuid option \<Rightarrow> characteristic list" where
  "matching cat char_uuid srvc_uuid =
     concat (map (\<lambda>sv. chars_matching (characteristics sv) char_uuid)
       (filter (\<lambda>sv. srvc_uuid = None \<or> srvc_uuid = Some (s_uuid sv)) (map snd cat)))"

text \<open>
  The device after the callbacks of a list have been called one after another, and
  whether each of them returns when its turn comes.
\<close>

fun call_all ::
  "('w, 'cb) env \<Rightarrow> 'cb list \<Rightarrow> int \<Rightarrow> bytes \<Rightarrow> ('w, 'cb) device \<Rightarrow> ('w, 'cb) device" where
  "call_all E [] h v self = self"
| "call_all E (callback # rest) h v self = call_all E rest h v (called E callback h v self)"

fun all_return ::
  "('w, 'cb) env \<Rightarrow> 'cb list \<Rightarrow> int \<Rightarrow> bytes \<Rightarrow> ('w, 'cb) device \<Rightarrow> bool" where
  "all_return E [] h v self \<longleftrightarrow> True"
| "all_return E (callback # rest) h v self \<longleftrightarrow>
     result_of E callback h v self = Returns \<and> all_return E rest h v (called E callback h v self)"

section \<open>Properties\<close>

lemmas demo_defs = demo_env_def demo_device_def init_def known_uuids_def catalog_hr_def
  catalog_two_def heart_rate_def battery_def hr_measurement_def

subsection \<open>The search of the catalog\<close>

lemma find_in_characteristics_None_iff:
  "find_in_characteristics cs u = None \<longleftrightarrow> \<not> list_ex (\<lambda>(k, ch). c_uuid ch = u) cs"
  by (induction cs u rule: find_in_characteristics.induct) (auto simp: characteristic_eq_def)

lemma find_in_characteristics_Some:
  "find_in_characteristics cs u = Some ch \<Longrightarrow> c_uuid ch = u \<and> ch \<in> snd ` set cs"
  by (induction cs u rule: find_in_characteristics.induct)
     (auto simp: characteristic_eq_def split: if_splits)

lemma find_in_characteristics_Some_ex:
  "find_in_characteristics cs u = Some ch \<Longrightarrow> list_ex (\<lambda>(k, ch). c_uuid ch = u) cs"
  using find_in_characteristics_None_iff [of cs u] by simp

lemma find_char_None_iff: "find_char cat cu su = None \<longleftrightarrow> \<not> present cat cu su"
  by (induction cat cu su rule: find_char.induct)
     (auto simp: present_def service_eq_def find_in_characteristics_None_iff
           dest: find_in_characteristics_Some_ex split: option.splits)

lemma find_char_Some:
  "find_char cat cu su = Some ch \<Longrightarrow>
     c_uuid ch = cu \<and>
     (\<exists>k sv. (k, sv) \<in> set cat \<and> (su = None \<or> su = Some (s_uuid sv)) \<and>
        ch \<in> snd ` set (characteristics sv))"
proof (induction cat cu su rule: find_char.induct)
  case (1 cu su)
  then show ?case by simp
next
  case (2 k sv rest cu su)
  show ?case
  proof (cases "case su of None \<Rightarrow> True | Some u \<Rightarrow> service_eq u sv")
    case True
    note scoped = this
    show ?thesis
    proof (cases "find_in_characteristics (characteristics sv) cu")
      case None
      with scoped 2 show ?thesis by auto
    next
      case (Some c)
      with scoped "2.prems" have "c = ch" by simp
      with Some have "c_uuid ch = cu \<and> ch \<in> snd ` set (characteristics sv)"
        using find_in_characteristics_Some by blast
      moreover from scoped have "su = None \<or> su = Some (s_uuid sv)"
        by (auto simp: service_eq_def split: option.splits)
      ultimately show ?thesis by auto
    qed
  next
    case False
    with 2 show ?thesis by auto
  qed
qed

lemma lookup_handle_found:
  "find_char (services self) cu su = Some ch \<Longrightarrow>
     lookup_handle E cu su self = (Inr (handle ch), self)"
  by (simp add: lookup_handle_def)

lemma find_in_characteristics_matching:
  "find_in_characteristics cs cu =
     (case chars_matching cs cu of [] \<Rightarrow> None | ch # _ \<Rightarrow> Some ch)"
  by (induction cs cu rule: find_in_characteristics.induct)
     (simp_all add: chars_matching_def characteristic_eq_def)

lemma find_char_matching:
  "find_char cat cu su = (case matching cat cu su of [] \<Rightarrow> None | ch # _ \<Rightarrow> Some ch)"
proof (induction cat cu su rule: find_char.induct)
  case (1 cu su)
  show ?case by (simp add: matching_def)
next
  case (2 k sv rest cu su)
  have m: "matching ((k, sv) # rest) cu su =
      (if su = None \<or> su = Some (s_uuid sv)
       then chars_matching (characteristics sv) cu @ matching rest cu su
       else matching rest cu su)"
    by (simp add: matching_def)
  have c: "(case su of None \<Rightarrow> True | Some u \<Rightarrow> service_eq u sv) \<longleftrightarrow>
      (su = None \<or> su = Some (s_uuid sv))"
    by (auto simp: service_eq_def split: option.splits)
  show ?case
  proof (cases "su = None \<or> su = Some (s_uuid sv)")
    case True
    with c have t: "case su of None \<Rightarrow> True | Some u \<Rightarrow> service_eq u sv" by simp
    show ?thesis
    proof (cases "chars_matching (characteristics sv) cu")
      case Nil
      then have "find_in_characteristics (characteristics sv) cu = None"
        by (simp add: find_in_characteristics_matching)
      with t True Nil 2 show ?thesis by (simp add: m)
    next
      case (Cons ch chs)
      then have "find_in_characteristics (characteristics sv) cu = Some ch"
        by (simp add: find_in_characteristics_matching)
      with t True Cons show ?thesis by (simp add: m)
    qed
  next
    case False
    with c have n: "\<not> (case su of None \<Rightarrow> True | Some u \<Rightarrow> service_eq u sv)" by simp
    then have "find_char ((k, sv) # rest) cu su = find_char rest cu su" by simp
    moreover from False have "matching ((k, sv) # rest) cu su = matching rest cu su"
      by (simp only: m if_False)
    moreover from n have "find_char rest cu su =
        (case matching rest cu su of [] \<Rightarrow> None | ch # _ \<Rightarrow> Some ch)"
      by (rule "2.IH"(2))
    ultimately show ?thesis by simp
  qed
qed

lemma present_matching: "present cat cu su \<longleftrightarrow> matching cat cu su \<noteq> []"
  using find_char_None_iff [of cat cu su] find_char_matching [of cat cu su]
  by (auto split: list.splits)

text \<open>
  C7: when a characteristic with the requested UUID is present in the catalog the device
  holds, in a service with the given UUID when a service UUID is given, \<open>get_handle\<close>
  returns the handle of the first such characteristic in the order of the catalog and
  leaves the device as it was: the catalog is kept and no \<open>discover\<close> is added to the
  trace. Each UUID is passed as a \<open>UUID\<close> or as a string that \<open>UUID\<close> accepts.
\<close>

theorem get_handle_present:
  assumes "char_uuid = Obj cu \<or> (\<exists>s. char_uuid = Str s \<and> UUID E s = Some cu)"
    and "(srvc_uuid = None \<and> su = None) \<or>
         (\<exists>u. su = Some u \<and>
            (srvc_uuid = Some (Obj u) \<or> (\<exists>t. srvc_uuid = Some (Str t) \<and> UUID E t = Some u)))"
    and "present (services self) cu su"
  shows "\<exists>ch others. matching (services self) cu su = ch # others \<and>
           get_handle E char_uuid srvc_uuid self = (Inr (handle ch), self) \<and>
           c_uuid ch = cu \<and>
           (\<exists>k sv k'. (k, sv) \<in> set (services self) \<and> (k', ch) \<in> set (characteristics sv) \<and>
              (\<forall>u. su = Some u \<longrightarrow> s_uuid sv = u))"
proof -
  from assms(1) have c: "to_uuid E char_uuid = Inr cu"
    by (auto simp: to_uuid_def)
  from assms(2) have s: "to_uuid_opt E srvc_uuid = Inr su"
    by (auto simp: to_uuid_opt_def to_uuid_def)
  from assms(3) obtain ch others where m: "matching (services self) cu su = ch # others"
    by (auto simp: present_matching neq_Nil_conv)
  then have f: "find_char (services self) cu su = Some ch"
    by (simp add: find_char_matching)
  then have g: "get_handle E char_uuid srvc_uuid self = (Inr (handle ch), self)"
    using c s by (simp add: get_handle_def lookup_handle_found)
  from find_char_Some [OF f]
  have "c_uuid ch = cu \<and>
     (\<exists>k sv k'. (k, sv) \<in> set (services self) \<and> (k', ch) \<in> set (characteristics sv) \<and>
        (\<forall>u. su = Some u \<longrightarrow> s_uuid sv = u))"
    by force
  with m g show ?thesis by blast
qed

theorem get_handle_present_witness:
  "present (services (demo_device catalog_two catalog_two 0)) hr_measurement (Some battery) \<and>
   matching (services (demo_device catalog_two catalog_two 0)) hr_measurement (Some battery)
     = [Characteristic hr_measurement 20] \<and>
   get_handle demo_env (Str ''00002a37-0000-1000-8000-00805f9b34fb'')
     (Some (Str ''0000180f-0000-1000-8000-00805f9b34fb'')) (demo_device catalog_two catalog_two 0)
   = (Inr 20, demo_device catalog_two catalog_two 0) \<and>
   get_handle demo_env (Obj hr_measurement) (Some (Obj battery)) (demo_device catalog_two catalog_two 0)
   = (Inr 20, demo_device catalog_two catalog_two 0) \<and>
   present (services (demo_device catalog_two catalog_two 0)) hr_measurement None \<and>
   matching (services (demo_device catalog_two catalog_two 0)) hr_measurement None
     = [Characteristic hr_measurement 10, Characteristic hr_measurement 20] \<and>
   get_handle demo_env (Obj hr_measurement) None (demo_device catalog_two catalog_two 0)
   = (Inr 10, demo_device catalog_two catalog_two 0)"
proof -
  let ?d = "demo_device catalog_two catalog_two 0 :: (catalog \<times> nat, nat) device"
  let ?c = "''00002a37-0000-1000-8000-00805f9b34fb''"
  let ?s = "''0000180f-0000-1000-8000-00805f9b34fb''"
  have u: "UUID demo_env ?c = Some hr_measurement" "UUID demo_env ?s = Some battery"
    by (simp_all add: demo_env_def known_uuids_def)
  have p1: "present (services ?d) hr_measurement (Some battery)"
    and p2: "present (services ?d) hr_measurement None"
    by (simp_all add: present_def demo_defs)
  have m1: "matching (services ?d) hr_measurement (Some battery) = [Characteristic hr_measurement 20]"
    and m2: "matching (services ?d) hr_measurement None
               = [Characteristic hr_measurement 10, Characteristic hr_measurement 20]"
    by (simp_all add: matching_def chars_matching_def demo_defs)
  from get_handle_present [of "Str ?c" hr_measurement demo_env "Some (Str ?s)" "Some battery" ?d]
    u p1 m1
  have g1: "get_handle demo_env (Str ?c) (Some (Str ?s)) ?d = (Inr 20, ?d)"
    by auto
  from get_handle_present [of "Obj hr_measurement" hr_measurement demo_env "Some (Obj battery)"
      "Some battery" ?d] p1 m1
  have g2: "get_handle demo_env (Obj hr_measurement) (Some (Obj battery)) ?d = (Inr 20, ?d)"
    by auto
  from get_handle_present [of "Obj hr_measurement" hr_measurement demo_env None None ?d] p2 m2
  have g3: "get_handle demo_env (Obj hr_measurement) None ?d = (Inr 10, ?d)"
    by auto
  from p1 p2 m1 m2 g1 g2 g3 show ?thesis by blast
qed

subsection \<open>Resolving a UUID pair to a handle\<close>

lemma refresh_trace: "trace (snd (refresh E self)) = trace self @ [Discover]"
  by (simp add: refresh_def split: prod.splits sum.splits)

lemma refresh_returns:
  "discover E (world self) = (Inr found, w) \<Longrightarrow>
     refresh E self = (Inr (), self\<lparr>services := found, world := w, trace := trace self @ [Discover]\<rparr>)"
  by (simp add: refresh_def)

lemma lookup_handle_trace:
  "trace (snd (lookup_handle E cu su self)) =
     (if find_char (services self) cu su = None then trace self @ [Discover] else trace self)"
proof (cases "find_char (services self) cu su = None")
  case True
  obtain r self1 where r: "refresh E self = (r, self1)" by (cases "refresh E self")
  with refresh_trace [of E self] have "trace self1 = trace self @ [Discover]" by simp
  with True r show ?thesis
    by (cases r) (simp_all add: lookup_handle_def split: option.splits)
next
  case False
  then show ?thesis by (auto simp: lookup_handle_def)
qed

lemma lookup_handle_refreshed:
  assumes "find_char (services self) cu su = None"
    and "discover E (world self) = (Inr found, w)"
  shows "lookup_handle E cu su self =
     ((case find_char found cu su of
         Some ch \<Rightarrow> Inr (handle ch)
       | None \<Rightarrow> Inl (BLEError (message E cu su))),
      self\<lparr>services := found, world := w, trace := trace self @ [Discover]\<rparr>)"
  using assms by (simp add: lookup_handle_def refresh_returns split: option.splits)

lemma get_handle_trace:
  "trace (snd (get_handle E char_uuid srvc_uuid self)) = trace self \<or>
   trace (snd (get_handle E char_uuid srvc_uuid self)) = trace self @ [Discover]"
  by (simp add: get_handle_def lookup_handle_trace split: sum.splits)

text \<open>
  C1: when the requested pair is absent from the catalog the device holds, \<open>get_handle\<close>
  calls \<open>discover\<close> exactly once; with the catalog that \<open>discover\<close> returns put in place
  of the old one, it returns the handle of the characteristic when the pair is present
  there and otherwise raises \<open>BLEError\<close> with a message made of the two requested UUIDs.
  No call of \<open>get_handle\<close> calls \<open>discover\<close> more than once.
\<close>

theorem get_handle_absent:
  "(to_uuid E char_uuid = Inr cu \<and> to_uuid_opt E srvc_uuid = Inr su \<and>
      \<not> present (services self) cu su
    \<longrightarrow> trace (snd (get_handle E char_uuid srvc_uuid self)) = trace self @ [Discover] \<and>
        (\<forall>found w. discover E (world self) = (Inr found, w) \<longrightarrow>
           get_handle E char_uuid srvc_uuid self =
             ((case find_char found cu su of
                 Some ch \<Rightarrow> Inr (handle ch)
               | None \<Rightarrow> Inl (BLEError
                   (''No characteristic found matching '' @ str E cu @ '' '' @
                    (case su of None \<Rightarrow> '''' | Some u \<Rightarrow> str E u)))),
              self\<lparr>services := found, world := w, trace := trace self @ [Discover]\<rparr>) \<and>
           (present found cu su \<longleftrightarrow> find_char found cu su \<noteq> None))) \<and>
   refreshes (trace (snd (get_handle E char_uuid srvc_uuid self))) \<le> refreshes (trace self) + 1"
proof (intro conjI impI allI)
  assume h: "to_uuid E char_uuid = Inr cu \<and> to_uuid_opt E srvc_uuid = Inr su \<and>
      \<not> present (services self) cu su"
  then have none: "find_char (services self) cu su = None"
    by (simp add: find_char_None_iff)
  from h have g: "get_handle E char_uuid srvc_uuid self = lookup_handle E cu su self"
    by (simp add: get_handle_def)
  from none show "trace (snd (get_handle E char_uuid srvc_uuid self)) = trace self @ [Discover]"
    by (simp add: g lookup_handle_trace)
  fix found w
  assume d: "discover E (world self) = (Inr found, w)"
  from lookup_handle_refreshed [OF none d, unfolded message_def]
  show "get_handle E char_uuid srvc_uuid self =
             ((case find_char found cu su of
                 Some ch \<Rightarrow> Inr (handle ch)
               | None \<Rightarrow> Inl (BLEError
                   (''No characteristic found matching '' @ str E cu @ '' '' @
                    (case su of None \<Rightarrow> '''' | Some u \<Rightarrow> str E u)))),
              self\<lparr>services := found, world := w, trace := trace self @ [Discover]\<rparr>)"
    by (simp add: g)
  show "present found cu su \<longleftrightarrow> find_char found cu su \<noteq> None"
    by (simp add: find_char_None_iff)
next
  from get_handle_trace [of E char_uuid srvc_uuid self]
  show "refreshes (trace (snd (get_handle E char_uuid srvc_uuid self))) \<le> refreshes (trace self) + 1"
    by (auto simp: refreshes_def)
qed

theorem get_handle_absent_witness:
  "\<not> present (services (demo_device [] catalog_hr 0)) hr_measurement (Some heart_rate) \<and>
   get_handle demo_env (Obj hr_measurement) (Some (Obj heart_rate)) (demo_device [] catalog_hr 0)
     = (Inr 10, (demo_device [] catalog_hr 0)\<lparr>services := catalog_hr, trace := [Discover]\<rparr>) \<and>
   \<not> present (services (demo_device [] catalog_hr 0)) battery (Some heart_rate) \<and>
   get_handle demo_env (Obj battery) (Some (Obj heart_rate)) (demo_device [] catalog_hr 0)
     = (Inl (BLEError (''No characteristic found matching 0000180f-0000-1000-8000-00805f9b34fb '' @
                       ''0000180d-0000-1000-8000-00805f9b34fb'')),
        (demo_device [] catalog_hr 0)\<lparr>services := catalog_hr, trace := [Discover]\<rparr>)"
proof -
  let ?d = "demo_device [] catalog_hr 0 :: (catalog \<times> nat, nat) device"
  have s: "to_uuid_opt demo_env (Some (Obj heart_rate)) = Inr (Some heart_rate)"
    by (simp add: to_uuid_opt_def to_uuid_def)
  have c1: "to_uuid demo_env (Obj hr_measurement) = Inr hr_measurement"
    and c2: "to_uuid demo_env (Obj battery) = Inr battery"
    by (simp_all add: to_uuid_def)
  have a1: "\<not> present (services ?d) hr_measurement (Some heart_rate)"
    and a2: "\<not> present (services ?d) battery (Some heart_rate)"
    by (simp_all add: present_def demo_device_def)
  have d: "discover demo_env (world ?d) = (Inr catalog_hr, (catalog_hr, 0))"
    by (simp add: demo_env_def demo_device_def init_def)
  have w: "?d\<lparr>services := catalog_hr, world := (catalog_hr, 0), trace := trace ?d @ [Discover]\<rparr>
             = ?d\<lparr>services := catalog_hr, trace := [Discover]\<rparr>"
    by (simp add: demo_device_def init_def)
  have f1: "find_char catalog_hr hr_measurement (Some heart_rate)
              = Some (Characteristic hr_measurement 10)"
    and f2: "find_char catalog_hr battery (Some heart_rate) = None"
    by (simp_all add: demo_defs service_eq_def characteristic_eq_def)
  have m: "str demo_env battery = ''0000180f-0000-1000-8000-00805f9b34fb''"
    "str demo_env heart_rate = ''0000180d-0000-1000-8000-00805f9b34fb''"
    by (simp_all add: demo_defs)
  from get_handle_absent [of demo_env "Obj hr_measurement" hr_measurement
      "Some (Obj heart_rate)" "Some heart_rate" ?d] c1 s a1 d
  have r1: "get_handle demo_env (Obj hr_measurement) (Some (Obj heart_rate)) ?d
     = (Inr 10, ?d\<lparr>services := catalog_hr, trace := [Discover]\<rparr>)"
    by (simp add: f1 w)
  from get_handle_absent [of demo_env "Obj battery" battery
      "Some (Obj heart_rate)" "Some heart_rate" ?d] c2 s a2 d
  have r2: "get_handle demo_env (Obj battery) (Some (Obj heart_rate)) ?d
     = (Inl (BLEError (''No characteristic found matching 0000180f-0000-1000-8000-00805f9b34fb '' @
                       ''0000180d-0000-1000-8000-00805f9b34fb'')),
        ?d\<lparr>services := catalog_hr, trace := [Discover]\<rparr>)"
    by (simp add: f2 w m)
  from a1 a2 r1 r2 show ?thesis by blast
qed

text \<open>
  C9: a string that \<open>UUID\<close> does not accept makes \<open>get_handle\<close> raise \<open>ValueError\<close> with
  the device as it was (no refresh, whatever the catalog holds); so does such a string
  given as service UUID, once the characteristic UUID has been accepted.
\<close>

theorem get_handle_malformed:
  "(UUID E s = None \<longrightarrow> get_handle E (Str s) srvc_uuid self = (Inl ValueError, self)) \<and>
   (to_uuid E char_uuid = Inr cu \<and> UUID E t = None \<longrightarrow>
      get_handle E char_uuid (Some (Str t)) self = (Inl ValueError, self))"
  by (simp add: get_handle_def to_uuid_def to_uuid_opt_def)

theorem get_handle_malformed_witness:
  "UUID demo_env ''2a37'' = None \<and>
   get_handle demo_env (Str ''2a37'') None (demo_device catalog_hr catalog_hr 0)
     = (Inl ValueError, demo_device catalog_hr catalog_hr 0) \<and>
   to_uuid demo_env (Obj hr_measurement) = Inr hr_measurement \<and>
   get_handle demo_env (Obj hr_measurement) (Some (Str ''2a37'')) (demo_device [] catalog_hr 0)
     = (Inl ValueError, demo_device [] catalog_hr 0)"
proof -
  have u: "UUID demo_env ''2a37'' = None"
    by (simp add: demo_env_def known_uuids_def)
  have c: "to_uuid demo_env (Obj hr_measurement) = Inr hr_measurement"
    by (simp add: to_uuid_def)
  from get_handle_malformed [of demo_env "''2a37''" None "demo_device catalog_hr catalog_hr 0"
      "Obj hr_measurement" hr_measurement "''2a37''"] u
  have 1: "get_handle demo_env (Str ''2a37'') None (demo_device catalog_hr catalog_hr 0)
     = (Inl ValueError, demo_device catalog_hr catalog_hr 0)" by simp
  from get_handle_malformed [of demo_env "''2a37''" None "demo_device [] catalog_hr 0"
      "Obj hr_measurement" hr_measurement "''2a37''"] u c
  have 2: "get_handle demo_env (Obj hr_measurement) (Some (Str ''2a37'')) (demo_device [] catalog_hr 0)
     = (Inl ValueError, demo_device [] catalog_hr 0)" by simp
  from u c 1 2 show ?thesis by blast
qed

subsection \<open>Subscribing and unsubscribing\<close>

lemma refresh_tables:
  "callbacks (snd (refresh E self)) = callbacks self \<and>
   subscribed_handlers (snd (refresh E self)) = subscribed_handlers self"
  by (simp add: refresh_def split: prod.splits sum.splits)

lemma lookup_handle_tables:
  "callbacks (snd (lookup_handle E cu su self)) = callbacks self \<and>
   subscribed_handlers (snd (lookup_handle E cu su self)) = subscribed_handlers self"
proof (cases "find_char (services self) cu su = None")
  case True
  obtain r self1 where r: "refresh E self = (r, self1)" by (cases "refresh E self")
  with refresh_tables [of E self]
  have "callbacks self1 = callbacks self \<and> subscribed_handlers self1 = subscribed_handlers self"
    by simp
  with True r show ?thesis
    by (cases r) (simp_all add: lookup_handle_def split: option.splits)
next
  case False
  then show ?thesis by (auto simp: lookup_handle_def)
qed

lemma get_handle_tables:
  "callbacks (snd (get_handle E uuid srvc_uuid self)) = callbacks self \<and>
   subscribed_handlers (snd (get_handle E uuid srvc_uuid self)) = subscribed_handlers self"
  by (simp add: get_handle_def lookup_handle_tables split: sum.splits)

lemma get_handle_tables':
  assumes "get_handle E uuid srvc_uuid self = (r, self1)"
  shows "callbacks self1 = callbacks self" and "subscribed_handlers self1 = subscribed_handlers self"
  using get_handle_tables [of E uuid srvc_uuid self] assms by simp_all

lemma notification_handles_resolved:
  "get_handle E uuid srvc_uuid self = (Inr vh, self1) \<Longrightarrow>
     notification_handles E uuid srvc_uuid self = (Inr (vh, vh + 1), self1)"
  by (simp add: notification_handles_def)

text \<open>
  C5: a call of \<open>subscribe\<close> that resolves the value handle and finds another
  configuration recorded for it (or none) writes once, to the handle after the value
  handle, the two bytes 0x02 0x00 for an indication and 0x01 0x00 otherwise, with
  \<open>wait_for_response=False\<close>; the write is the only call it adds after resolving.
\<close>

theorem subscribe_write:
  assumes "get_handle E uuid srvc_uuid self = (Inr value_handle, self1)"
    and "subscribed_handlers self value_handle \<noteq> Some [if indication then 0x2 else 0x1, 0x0]"
  shows "trace (snd (subscribe E uuid srvc_uuid callback indication self)) =
           trace self1 @
           [Write (value_handle + 1) (if indication then [0x02, 0x00] else [0x01, 0x00]) False]"
proof -
  from assms(1) have sh: "subscribed_handlers self1 = subscribed_handlers self"
    by (rule get_handle_tables')
  with assms(2) show ?thesis
    by (cases callback)
       (auto simp: subscribe_def notification_handles_resolved [OF assms(1)] Let_def
          write_handle_def add_callback_def split: prod.splits sum.splits option.splits)
qed

theorem subscribe_write_witness:
  "get_handle demo_env (Obj hr_measurement) (Some (Obj heart_rate))
     (demo_device catalog_hr catalog_hr 0) = (Inr 10, demo_device catalog_hr catalog_hr 0) \<and>
   subscribed_handlers (demo_device catalog_hr catalog_hr 0) 10 \<noteq> Some [0x1, 0x0] \<and>
   subscribed_handlers (demo_device catalog_hr catalog_hr 0) 10 \<noteq> Some [0x2, 0x0] \<and>
   trace (snd (subscribe demo_env (Obj hr_measurement) (Some (Obj heart_rate)) (Some 2) False
     (demo_device catalog_hr catalog_hr 0))) = [Write 11 [0x01, 0x00] False] \<and>
   trace (snd (subscribe demo_env (Obj hr_measurement) (Some (Obj heart_rate)) (Some 2) True
     (demo_device catalog_hr catalog_hr 0))) = [Write 11 [0x02, 0x00] False]"
proof -
  let ?d = "demo_device catalog_hr catalog_hr 0 :: (catalog \<times> nat, nat) device"
  have g: "get_handle demo_env (Obj hr_measurement) (Some (Obj heart_rate)) ?d = (Inr 10, ?d)"
    by (simp add: get_handle_def to_uuid_def to_uuid_opt_def lookup_handle_def demo_defs
          service_eq_def characteristic_eq_def)
  have n1: "subscribed_handlers ?d 10 \<noteq> Some [if False then 0x2 else 0x1, 0x0]"
    and n2: "subscribed_handlers ?d 10 \<noteq> Some [if True then 0x2 else 0x1, 0x0]"
    by (simp_all add: demo_device_def init_def)
  have t: "trace ?d = []" by (simp add: demo_device_def init_def)
  from subscribe_write [OF g n1, of "Some 2"] subscribe_write [OF g n2, of "Some 2"] g n1 n2 t
  show ?thesis by simp
qed

text \<open>
  C10: when the write of the configuration raises in a call of \<open>subscribe\<close> that was given
  a callback, the exception leaves \<open>subscribe\<close>, the callback is in the set of the value
  handle in the device left behind, and the table of recorded configurations is the one
  from before the call.
\<close>

theorem subscribe_write_raises:
  assumes "get_handle E uuid srvc_uuid self = (Inr value_handle, self1)"
    and "subscribed_handlers self value_handle \<noteq> Some [if indication then 0x2 else 0x1, 0x0]"
    and "char_write_handle E (value_handle + 1) [if indication then 0x2 else 0x1, 0x0] False
           (world self1) = (Some e, w)"
  shows "\<exists>self3 cbs. subscribe E uuid srvc_uuid (Some cb) indication self = (Inl e, self3) \<and>
           callbacks self3 value_handle = Some cbs \<and> cb \<in> set (list_of_dlist cbs) \<and>
           subscribed_handlers self3 = subscribed_handlers self \<and>
           trace self3 = trace self1 @
             [Write (value_handle + 1) [if indication then 0x2 else 0x1, 0x0] False]"
proof -
  from assms(1) have sh: "subscribed_handlers self1 = subscribed_handlers self"
    by (rule get_handle_tables')
  with assms(2,3) show ?thesis
    by (simp add: subscribe_def notification_handles_resolved [OF assms(1)] Let_def
          write_handle_def add_callback_def)
qed

theorem subscribe_write_raises_witness:
  "get_handle demo_env (Obj hr_measurement) None (demo_device catalog_hr catalog_hr 1)
     = (Inr 10, demo_device catalog_hr catalog_hr 1) \<and>
   subscribed_handlers (demo_device catalog_hr catalog_hr 1) 10 \<noteq> Some [0x1, 0x0] \<and>
   char_write_handle demo_env 11 [0x1, 0x0] False (world (demo_device catalog_hr catalog_hr 1))
     = (Some (Raised ''TransportError''), (catalog_hr, 0)) \<and>
   (\<exists>self3 cbs. subscribe demo_env (Obj hr_measurement) None (Some 2) False
        (demo_device catalog_hr catalog_hr 1) = (Inl (Raised ''TransportError''), self3) \<and>
      callbacks self3 10 = Some cbs \<and> 2 \<in> set (list_of_dlist cbs) \<and>
      subscribed_handlers self3 = subscribed_handlers (demo_device catalog_hr catalog_hr 1) \<and>
      trace self3 = [Write 11 [0x1, 0x0] False])"
proof -
  let ?d = "demo_device catalog_hr catalog_hr 1 :: (catalog \<times> nat, nat) device"
  have g: "get_handle demo_env (Obj hr_measurement) None ?d = (Inr 10, ?d)"
    by (simp add: get_handle_def to_uuid_def to_uuid_opt_def lookup_handle_def demo_defs
          service_eq_def characteristic_eq_def)
  have n: "subscribed_handlers ?d 10 \<noteq> Some [if False then 0x2 else 0x1, 0x0]"
    by (simp add: demo_device_def init_def)
  have c: "char_write_handle demo_env (10 + 1) [if False then 0x2 else 0x1, 0x0] False (world ?d)
             = (Some (Raised ''TransportError''), (catalog_hr, 0))"
    by (simp add: demo_env_def demo_device_def init_def)
  have t: "trace ?d = []" by (simp add: demo_device_def init_def)
  from subscribe_write_raises [OF g n c, of 2] g n c t show ?thesis by simp
qed

lemma get_handle_writes:
  assumes "get_handle E uuid srvc_uuid self = (r, self1)"
  shows "writes (trace self1) = writes (trace self)"
  using get_handle_trace [of E uuid srvc_uuid self] assms by (auto simp: writes_def)

lemma unsubscribe_resolved:
  assumes "get_handle E uuid None self = (Inr vh, self1)"
  shows "unsubscribe E uuid self =
     (if vh \<in> dom (subscribed_handlers self1) then
        write_handle E (vh + 1) [0x0, 0x0] False
          (self1\<lparr>callbacks := (callbacks self1)(vh := None),
                 subscribed_handlers := (subscribed_handlers self1)(vh := None)\<rparr>)
      else (Inr (), self1\<lparr>callbacks := (callbacks self1)(vh := None)\<rparr>))"
proof -
  have "self1\<lparr>callbacks := (callbacks self1)(vh := None)\<rparr> = self1" if "vh \<notin> dom (callbacks self1)"
    using that by (simp add: domIff)
  then show ?thesis
    by (auto simp: unsubscribe_def notification_handles_resolved [OF assms] Let_def)
qed

text \<open>
  C6: once \<open>unsubscribe\<close> has resolved the value handle (which may take a \<open>discover\<close>).
  With a configuration recorded for the handle, the callback set of the handle and the
  record are removed and exactly one write is made, of 0x00 0x00 to the handle after the
  value handle with \<open>wait_for_response=False\<close> (its exception, if any, is the result).
  With none recorded, nothing is written and \<open>unsubscribe\<close> returns; the device is the
  one after resolving, less the callback set of the handle if there is one.
\<close>

theorem unsubscribe_cases:
  assumes "get_handle E uuid None self = (Inr value_handle, self1)"
  shows "(subscribed_handlers self value_handle \<noteq> None \<longrightarrow>
            (\<exists>r w. char_write_handle E (value_handle + 1) [0x00, 0x00] False (world self1) = (r, w) \<and>
               unsubscribe E uuid self =
                 ((case r of Some e \<Rightarrow> Inl e | None \<Rightarrow> Inr ()),
                  self1\<lparr>callbacks := (callbacks self)(value_handle := None),
                        subscribed_handlers := (subscribed_handlers self)(value_handle := None),
                        world := w,
                        trace := trace self1 @ [Write (value_handle + 1) [0x00, 0x00] False]\<rparr>)) \<and>
            writes (trace (snd (unsubscribe E uuid self))) =
              writes (trace self) @ [Write (value_handle + 1) [0x00, 0x00] False]) \<and>
         (subscribed_handlers self value_handle = None \<longrightarrow>
            unsubscribe E uuid self =
              (Inr (), self1\<lparr>callbacks := (callbacks self)(value_handle := None)\<rparr>) \<and>
            writes (trace (snd (unsubscribe E uuid self))) = writes (trace self))"
proof -
  from assms have t: "callbacks self1 = callbacks self"
    "subscribed_handlers self1 = subscribed_handlers self"
    by (rule get_handle_tables')+
  from assms have w: "writes (trace self1) = writes (trace self)"
    by (rule get_handle_writes)
  have "filter is_Write (trace self1) = writes (trace self)"
    using w by (simp add: writes_def)
  then show ?thesis
    by (auto simp: unsubscribe_resolved [OF assms] t write_handle_def domIff writes_def
          split: prod.splits)
qed

theorem unsubscribe_cases_witness:
  "get_handle demo_env (Obj hr_measurement) None subscribed_device = (Inr 10, subscribed_device) \<and>
   subscribed_handlers subscribed_device 10 \<noteq> None \<and>
   unsubscribe demo_env (Obj hr_measurement) subscribed_device
     = (Inr (), (demo_device catalog_hr catalog_hr 0)
                  \<lparr>trace := [Write 11 [0x1, 0x0] False, Write 11 [0x0, 0x0] False]\<rparr>) \<and>
   get_handle demo_env (Obj hr_measurement) None (demo_device catalog_hr catalog_hr 0)
     = (Inr 10, demo_device catalog_hr catalog_hr 0) \<and>
   subscribed_handlers (demo_device catalog_hr catalog_hr 0) 10 = None \<and>
   unsubscribe demo_env (Obj hr_measurement) (demo_device catalog_hr catalog_hr 0)
     = (Inr (), demo_device catalog_hr catalog_hr 0) \<and>
   get_handle demo_env (Obj hr_measurement) None (demo_device [] catalog_hr 0)
     = (Inr 10, (demo_device [] catalog_hr 0)\<lparr>services := catalog_hr, trace := [Discover]\<rparr>) \<and>
   unsubscribe demo_env (Obj hr_measurement) (demo_device [] catalog_hr 0)
     = (Inr (), (demo_device [] catalog_hr 0)\<lparr>services := catalog_hr, trace := [Discover]\<rparr>)"
proof -
  let ?d = "demo_device catalog_hr catalog_hr 0 :: (catalog \<times> nat, nat) device"
  let ?e = "demo_device [] catalog_hr 0 :: (catalog \<times> nat, nat) device"
  have g3: "get_handle demo_env (Obj hr_measurement) None ?e
              = (Inr 10, ?e\<lparr>services := catalog_hr, trace := [Discover]\<rparr>)"
    by (simp add: get_handle_def to_uuid_def to_uuid_opt_def lookup_handle_def refresh_def
          demo_defs service_eq_def characteristic_eq_def)
  have s3: "subscribed_handlers ?e 10 = None"
    by (simp add: demo_device_def init_def)
  from unsubscribe_cases [OF g3] s3
  have u3: "unsubscribe demo_env (Obj hr_measurement) ?e
     = (Inr (), ?e\<lparr>services := catalog_hr, trace := [Discover]\<rparr>)"
    by (simp add: demo_device_def init_def)
  have g1: "get_handle demo_env (Obj hr_measurement) None subscribed_device = (Inr 10, subscribed_device)"
    by (simp add: get_handle_def to_uuid_def to_uuid_opt_def lookup_handle_def demo_defs
          subscribed_device_def service_eq_def characteristic_eq_def)
  have g2: "get_handle demo_env (Obj hr_measurement) None ?d = (Inr 10, ?d)"
    by (simp add: get_handle_def to_uuid_def to_uuid_opt_def lookup_handle_def demo_defs
          service_eq_def characteristic_eq_def)
  have s1: "subscribed_handlers subscribed_device 10 \<noteq> None"
    by (simp add: subscribed_device_def)
  have s2: "subscribed_handlers ?d 10 = None"
    by (simp add: demo_device_def init_def)
  have w: "char_write_handle demo_env (10 + 1) [0x00, 0x00] False (world subscribed_device)
             = (None, (catalog_hr, 0))"
    by (simp add: demo_env_def subscribed_device_def demo_device_def init_def)
  from unsubscribe_cases [OF g1] s1 w
  have u1: "unsubscribe demo_env (Obj hr_measurement) subscribed_device
     = (Inr (), ?d\<lparr>trace := [Write 11 [0x1, 0x0] False, Write 11 [0x0, 0x0] False]\<rparr>)"
    by (simp add: subscribed_device_def demo_device_def init_def)
  from unsubscribe_cases [OF g2] s2
  have u2: "unsubscribe demo_env (Obj hr_measurement) ?d = (Inr (), ?d)"
    by (simp add: demo_device_def init_def)
  from g1 g2 s1 s2 u1 u2 g3 u3 show ?thesis by blast
qed

lemma lookup_handle_Inr:
  assumes "lookup_handle E cu su self = (Inr vh, self1)"
  shows "\<exists>ch. find_char (services self1) cu su = Some ch \<and> handle ch = vh"
proof (cases "find_char (services self) cu su = None")
  case True
  obtain r s where r: "refresh E self = (r, s)" by (cases "refresh E self")
  with True assms show ?thesis
    by (cases r) (auto simp: lookup_handle_def split: option.splits)
next
  case False
  with assms show ?thesis by (auto simp: lookup_handle_def)
qed

lemma get_handle_again:
  assumes "get_handle E uuid srvc_uuid self = (Inr vh, self1)"
    and "services self2 = services self1"
  shows "get_handle E uuid srvc_uuid self2 = (Inr vh, self2)"
proof -
  from assms(1) obtain cu su where u: "to_uuid E uuid = Inr cu" "to_uuid_opt E srvc_uuid = Inr su"
    and l: "lookup_handle E cu su self = (Inr vh, self1)"
    by (auto simp: get_handle_def split: sum.splits)
  from lookup_handle_Inr [OF l] obtain ch
    where "find_char (services self2) cu su = Some ch" "handle ch = vh"
    using assms(2) by auto
  with u show ?thesis by (simp add: get_handle_def lookup_handle_found)
qed

lemma subscribe_recorded:
  assumes "get_handle E uuid srvc_uuid self = (Inr vh, self)"
    and "subscribed_handlers self vh = Some [if indication then 0x2 else 0x1, 0x0]"
  shows "subscribe E uuid srvc_uuid callback indication self =
           (Inr (), (case callback of None \<Rightarrow> self | Some cb \<Rightarrow> add_callback vh cb self))"
  using assms(2)
  by (cases callback)
     (simp_all add: subscribe_def notification_handles_resolved [OF assms(1)] Let_def
        add_callback_def)

lemma add_callback_trace: "trace (add_callback vh cb self) = trace self"
  by (simp add: add_callback_def)

text \<open>
  C2, as the code has it: when a call of \<open>subscribe\<close> returns, a second call with the
  same UUIDs and the same \<open>indication\<close> (and any callback) resolves the same handle, adds
  no call to the trace (no write, no \<open>discover\<close>) and returns; the first call has
  written once when the configuration recorded for the handle before it was another one
  (or none), and not at all when it was already the desired one.
\<close>

theorem subscribe_twice:
  assumes "subscribe E uuid srvc_uuid callback indication self = (Inr (), self1)"
  shows "\<exists>vh. fst (get_handle E uuid srvc_uuid self) = Inr vh \<and>
           subscribe E uuid srvc_uuid callback' indication self1 =
             (Inr (), (case callback' of None \<Rightarrow> self1 | Some cb \<Rightarrow> add_callback vh cb self1)) \<and>
           trace (snd (subscribe E uuid srvc_uuid callback' indication self1)) = trace self1 \<and>
           writes (trace self1) = writes (trace self) @
             (if subscribed_handlers self vh = Some [if indication then 0x2 else 0x1, 0x0] then []
              else [Write (vh + 1) [if indication then 0x2 else 0x1, 0x0] False])"
proof -
  let ?p = "[if indication then 0x2 else 0x1, 0x0] :: bytes"
  obtain r g where g: "get_handle E uuid srvc_uuid self = (r, g)"
    by (cases "get_handle E uuid srvc_uuid self")
  with assms obtain vh where r: "r = Inr vh"
    by (cases r) (auto simp: subscribe_def notification_handles_def)
  note g = g [unfolded r]
  have sh: "subscribed_handlers g = subscribed_handlers self"
    using g by (rule get_handle_tables')
  have wr: "writes (trace g) = writes (trace self)"
    using g by (rule get_handle_writes)
  let ?g2 = "case callback of None \<Rightarrow> g | Some cb \<Rightarrow> add_callback vh cb g"
  have g2: "services ?g2 = services g" "subscribed_handlers ?g2 = subscribed_handlers g"
    "trace ?g2 = trace g"
    by (simp_all add: add_callback_def split: option.splits)
  have s1: "services self1 = services g \<and> subscribed_handlers self1 vh = Some ?p \<and>
      writes (trace self1) = writes (trace self) @
        (if subscribed_handlers self vh = Some ?p then [] else [Write (vh + 1) ?p False])"
  proof (cases "subscribed_handlers self vh = Some ?p")
    case True
    with assms sh have "self1 = ?g2"
      by (cases callback)
         (simp_all add: subscribe_def notification_handles_resolved [OF g] Let_def
            add_callback_def)
    with True g2 sh wr show ?thesis by simp
  next
    case False
    obtain r3 g3 where w: "write_handle E (vh + 1) ?p False ?g2 = (r3, g3)"
      by (cases "write_handle E (vh + 1) ?p False ?g2")
    then have g3: "services g3 = services ?g2" "trace g3 = trace ?g2 @ [Write (vh + 1) ?p False]"
      by (auto simp: write_handle_def split: prod.splits)
    from False sh g2 have ne: "subscribed_handlers ?g2 vh \<noteq> Some ?p" by simp
    from assms have "subscribe E uuid srvc_uuid callback indication self = (Inr (), self1)" .
    then have "(case write_handle E (vh + 1) ?p False ?g2 of
                  (Inl e, self3) \<Rightarrow> (Inl e, self3)
                | (Inr u, self3) \<Rightarrow>
                    (Inr (), self3\<lparr>subscribed_handlers := (subscribed_handlers self3)(vh \<mapsto> ?p)\<rparr>))
               = (Inr (), self1)"
      using ne by (simp add: subscribe_def notification_handles_resolved [OF g] Let_def)
    with w have "self1 = g3\<lparr>subscribed_handlers := (subscribed_handlers g3)(vh \<mapsto> ?p)\<rparr>"
      by (cases r3) auto
    with g3 g2 wr False show ?thesis by (simp add: writes_def)
  qed
  from s1 have "get_handle E uuid srvc_uuid self1 = (Inr vh, self1)"
    using get_handle_again [OF g] by simp
  from subscribe_recorded [OF this, of indication callback'] s1
  have s2: "subscribe E uuid srvc_uuid callback' indication self1 =
      (Inr (), (case callback' of None \<Rightarrow> self1 | Some cb \<Rightarrow> add_callback vh cb self1))"
    by simp
  then have "trace (snd (subscribe E uuid srvc_uuid callback' indication self1)) = trace self1"
    by (simp add: add_callback_trace split: option.splits)
  with g s1 s2 show ?thesis by auto
qed


theorem subscribe_twice_witness:
  "subscribe demo_env (Obj hr_measurement) (Some (Obj heart_rate)) (Some 2) False
     (demo_device catalog_hr catalog_hr 0) = (Inr (), subscribed_device) \<and>
   subscribe demo_env (Obj hr_measurement) (Some (Obj heart_rate)) (Some 4) False subscribed_device
     = (Inr (), add_callback 10 4 subscribed_device) \<and>
   trace (add_callback 10 4 subscribed_device) = [Write 11 [0x1, 0x0] False] \<and>
   writes (trace subscribed_device) = [Write 11 [0x1, 0x0] False]"
proof -
  let ?d = "demo_device catalog_hr catalog_hr 0 :: (catalog \<times> nat, nat) device"
  have g: "get_handle demo_env (Obj hr_measurement) (Some (Obj heart_rate)) ?d = (Inr 10, ?d)"
    by (simp add: get_handle_def to_uuid_def to_uuid_opt_def lookup_handle_def demo_defs
          service_eq_def characteristic_eq_def)
  have s: "subscribe demo_env (Obj hr_measurement) (Some (Obj heart_rate)) (Some 2) False ?d
             = (Inr (), subscribed_device)"
    by (simp add: subscribe_def notification_handles_resolved [OF g] Let_def add_callback_def
          write_handle_def subscribed_device_def)
       (simp add: demo_env_def demo_device_def init_def)
  have t: "trace subscribed_device = [Write 11 [0x1, 0x0] False]"
    by (simp add: subscribed_device_def)
  from subscribe_twice [OF s, of "Some 4"] g s t show ?thesis
    by (auto simp: add_callback_trace demo_device_def init_def writes_def)
qed

text \<open>
  C2 as the spec states it, at a device that has subscribed already: two more calls with
  the same arguments write nothing, where the spec has exactly one write.
\<close>

theorem subscribe_twice_counterexample:
  "trace (snd (subscribe demo_env (Obj hr_measurement) (Some (Obj heart_rate)) None False
     (snd (subscribe demo_env (Obj hr_measurement) (Some (Obj heart_rate)) None False
        subscribed_device)))) = trace subscribed_device \<and>
   length (writes (trace (snd (subscribe demo_env (Obj hr_measurement) (Some (Obj heart_rate)) None False
     (snd (subscribe demo_env (Obj hr_measurement) (Some (Obj heart_rate)) None False
        subscribed_device)))))) \<noteq> length (writes (trace subscribed_device)) + 1"
proof -
  have g: "get_handle demo_env (Obj hr_measurement) (Some (Obj heart_rate)) subscribed_device
             = (Inr 10, subscribed_device)"
    by (simp add: get_handle_def to_uuid_def to_uuid_opt_def lookup_handle_def demo_defs
          subscribed_device_def service_eq_def characteristic_eq_def)
  have "subscribe demo_env (Obj hr_measurement) (Some (Obj heart_rate)) None False subscribed_device
          = (Inr (), subscribed_device)"
    by (simp add: subscribe_def notification_handles_resolved [OF g] Let_def)
       (simp add: subscribed_device_def)
  then show ?thesis by simp
qed

text \<open>
  C8: \<open>unsubscribe\<close> takes the characteristic UUID only and resolves it in the whole
  catalog. After \<open>subscribe\<close> for the characteristic of the second service (value handle
  20), \<open>unsubscribe\<close> resolves the characteristic of the first one (handle 10): it writes
  nothing and leaves the subscription and the callback of handle 20 in place.
\<close>

theorem unsubscribe_ignores_service:
  "fst (get_handle demo_env (Obj hr_measurement) (Some (Obj battery))
          (demo_device catalog_two catalog_two 0)) = Inr 20 \<and>
   fst (get_handle demo_env (Obj hr_measurement) None
          (demo_device catalog_two catalog_two 0)) = Inr 10 \<and>
   subscribe demo_env (Obj hr_measurement) (Some (Obj battery)) (Some 2) False
     (demo_device catalog_two catalog_two 0) = (Inr (), battery_subscribed) \<and>
   unsubscribe demo_env (Obj hr_measurement) battery_subscribed = (Inr (), battery_subscribed) \<and>
   subscribed_handlers battery_subscribed 20 = Some [0x1, 0x0] \<and>
   callbacks battery_subscribed 20 = Some (Dlist.insert 2 Dlist.empty) \<and>
   trace battery_subscribed = [Write 21 [0x1, 0x0] False]"
proof -
  let ?d = "demo_device catalog_two catalog_two 0 :: (catalog \<times> nat, nat) device"
  have g1: "get_handle demo_env (Obj hr_measurement) (Some (Obj battery)) ?d = (Inr 20, ?d)"
    by (simp add: get_handle_def to_uuid_def to_uuid_opt_def lookup_handle_def demo_defs
          service_eq_def characteristic_eq_def)
  have g2: "get_handle demo_env (Obj hr_measurement) None ?d = (Inr 10, ?d)"
    by (simp add: get_handle_def to_uuid_def to_uuid_opt_def lookup_handle_def demo_defs
          service_eq_def characteristic_eq_def)
  have g3: "get_handle demo_env (Obj hr_measurement) None battery_subscribed
              = (Inr 10, battery_subscribed)"
    by (rule get_handle_again [OF g2]) (simp add: battery_subscribed_def demo_device_def)
  have s: "subscribe demo_env (Obj hr_measurement) (Some (Obj battery)) (Some 2) False ?d
             = (Inr (), battery_subscribed)"
    by (simp add: subscribe_def notification_handles_resolved [OF g1] Let_def add_callback_def
          write_handle_def battery_subscribed_def)
       (simp add: demo_env_def demo_device_def init_def)
  have u: "unsubscribe demo_env (Obj hr_measurement) battery_subscribed = (Inr (), battery_subscribed)"
    by (simp add: unsubscribe_resolved [OF g3]) (simp add: battery_subscribed_def)
  from g1 g2 s u show ?thesis by (simp add: battery_subscribed_def)
qed

subsection \<open>Dispatching a notification\<close>

lemma called_simps:
  "trace (called E cb h v self) = trace self @ [Call cb h v]"
  "callbacks (called E cb h v self) = callbacks self"
  "subscribed_handlers (called E cb h v self) = subscribed_handlers self"
  by (simp_all add: called_def split: prod.splits)

lemma call_all_simps:
  "trace (call_all E cbs h v self) = trace self @ map (\<lambda>cb. Call cb h v) cbs"
  "callbacks (call_all E cbs h v self) = callbacks self"
  "subscribed_handlers (call_all E cbs h v self) = subscribed_handlers self"
  by (induction cbs arbitrary: self) (simp_all add: called_simps)

lemma call_all_append:
  "call_all E (pre @ rest) h v self = call_all E rest h v (call_all E pre h v self)"
  by (induction pre arbitrary: self) simp_all

lemma invoke_all_returns:
  "all_return E cbs h v self \<Longrightarrow> invoke_all E cbs h v self = (Returns, call_all E cbs h v self)"
  by (induction cbs arbitrary: self) simp_all

lemma invoke_all_append:
  "all_return E pre h v self \<Longrightarrow>
     invoke_all E (pre @ rest) h v self = invoke_all E rest h v (call_all E pre h v self)"
  by (induction pre arbitrary: self) simp_all

lemma invoke_all_stops:
  assumes "all_return E pre h v self"
    and "result_of E cb h v (call_all E pre h v self) \<noteq> Returns"
  shows "invoke_all E (pre @ cb # rest) h v self =
           (result_of E cb h v (call_all E pre h v self),
            called E cb h v (call_all E pre h v self))"
  using assms by (simp add: invoke_all_append)

lemma invoke_all_cases:
  "all_return E cbs h v self \<or>
   (\<exists>pre cb rest. cbs = pre @ cb # rest \<and> all_return E pre h v self \<and>
      result_of E cb h v (call_all E pre h v self) \<noteq> Returns)"
proof (induction cbs arbitrary: self)
  case Nil
  show ?case by simp
next
  case (Cons c cs)
  show ?case
  proof (cases "result_of E c h v self = Returns")
    case False
    then have "c # cs = [] @ c # cs \<and> all_return E [] h v self \<and>
        result_of E c h v (call_all E [] h v self) \<noteq> Returns"
      by simp
    then show ?thesis by blast
  next
    case True
    from Cons [of "called E c h v self"] show ?thesis
    proof
      assume "all_return E cs h v (called E c h v self)"
      with True show ?thesis by simp
    next
      assume "\<exists>pre cb rest. cs = pre @ cb # rest \<and> all_return E pre h v (called E c h v self) \<and>
        result_of E cb h v (call_all E pre h v (called E c h v self)) \<noteq> Returns"
      then obtain pre cb rest where "cs = pre @ cb # rest"
        "all_return E pre h v (called E c h v self)"
        "result_of E cb h v (call_all E pre h v (called E c h v self)) \<noteq> Returns"
        by blast
      with True have "c # cs = (c # pre) @ cb # rest \<and> all_return E (c # pre) h v self \<and>
        result_of E cb h v (call_all E (c # pre) h v self) \<noteq> Returns"
        by simp
      then show ?thesis by blast
    qed
  qed
qed

lemma invoke_all_tables:
  "callbacks (snd (invoke_all E cbs h v self)) = callbacks self \<and>
   subscribed_handlers (snd (invoke_all E cbs h v self)) = subscribed_handlers self"
  by (induction cbs arbitrary: self) (simp_all add: called_simps)

lemma distinct_calls: "distinct (map (\<lambda>cb. Call cb h v) (list_of_dlist cbs))"
  by (simp add: distinct_map inj_on_def)

text \<open>
  C3, as the code has it: for a handle with a callback set, \<open>receive_notification\<close>
  calls the callbacks of the set one after another with (handle, value). When each of
  them returns at its turn, every callback of the set has been called exactly once and
  \<open>receive_notification\<close> returns. The first callback that raises or never returns ends
  the call the same way: the callbacks before it have been called once each, the ones
  after it are not called. For a handle without a callback set nothing is called,
  \<open>receive_notification\<close> returns and the device is as it was.
\<close>

theorem receive_notification_calls:
  "(callbacks self h = Some cbs \<and> all_return E (list_of_dlist cbs) h v self \<longrightarrow>
      receive_notification E h v self = (Returns, call_all E (list_of_dlist cbs) h v self) \<and>
      trace (snd (receive_notification E h v self))
        = trace self @ map (\<lambda>cb. Call cb h v) (list_of_dlist cbs)) \<and>
   (callbacks self h = Some cbs \<and> list_of_dlist cbs = pre @ cb # rest \<and>
    all_return E pre h v self \<and> result_of E cb h v (call_all E pre h v self) \<noteq> Returns \<longrightarrow>
      receive_notification E h v self =
        (result_of E cb h v (call_all E pre h v self), called E cb h v (call_all E pre h v self)) \<and>
      trace (snd (receive_notification E h v self))
        = trace self @ map (\<lambda>cb. Call cb h v) pre @ [Call cb h v]) \<and>
   (callbacks self h = Some cbs \<longrightarrow> distinct (map (\<lambda>cb. Call cb h v) (list_of_dlist cbs))) \<and>
   (callbacks self h = None \<longrightarrow> receive_notification E h v self = (Returns, self))"
proof (intro conjI impI)
  assume a: "callbacks self h = Some cbs \<and> all_return E (list_of_dlist cbs) h v self"
  then show r: "receive_notification E h v self = (Returns, call_all E (list_of_dlist cbs) h v self)"
    by (simp add: receive_notification_def invoke_all_returns)
  show "trace (snd (receive_notification E h v self))
        = trace self @ map (\<lambda>cb. Call cb h v) (list_of_dlist cbs)"
    by (simp add: r call_all_simps)
next
  assume a: "callbacks self h = Some cbs \<and> list_of_dlist cbs = pre @ cb # rest \<and>
    all_return E pre h v self \<and> result_of E cb h v (call_all E pre h v self) \<noteq> Returns"
  then show r: "receive_notification E h v self =
        (result_of E cb h v (call_all E pre h v self), called E cb h v (call_all E pre h v self))"
    by (simp add: receive_notification_def invoke_all_stops)
  show "trace (snd (receive_notification E h v self))
        = trace self @ map (\<lambda>cb. Call cb h v) pre @ [Call cb h v]"
    by (simp add: r called_simps call_all_simps)
next
  show "distinct (map (\<lambda>cb. Call cb h v) (list_of_dlist cbs))"
    by (rule distinct_calls)
next
  assume "callbacks self h = None"
  then show "receive_notification E h v self = (Returns, self)"
    by (simp add: receive_notification_def)
qed


lemmas dispatch_defs = result_of_def called_def demo_env_def demo_device_def init_def
  List.insert_def

theorem receive_notification_calls_witness:
  "callbacks subscribed_device 10 = Some (Dlist.insert 2 Dlist.empty) \<and>
   list_of_dlist (Dlist.insert 2 Dlist.empty) = [2 :: nat] \<and>
   all_return demo_env [2] 10 [0x48] subscribed_device \<and>
   receive_notification demo_env 10 [0x48] subscribed_device
     = (Returns, subscribed_device\<lparr>trace := [Write 11 [0x1, 0x0] False, Call 2 10 [0x48]]\<rparr>) \<and>
   callbacks blocking_device 10
     = Some (Dlist.insert 4 (Dlist.insert 8 (Dlist.insert 2 Dlist.empty))) \<and>
   list_of_dlist (Dlist.insert 4 (Dlist.insert 8 (Dlist.insert 2 Dlist.empty))) = [4] @ 8 # [2 :: nat] \<and>
   all_return demo_env [4] 10 [0x48] blocking_device \<and>
   result_of demo_env 8 10 [0x48] (call_all demo_env [4] 10 [0x48] blocking_device) = Blocks \<and>
   receive_notification demo_env 10 [0x48] blocking_device
     = (Blocks, blocking_device\<lparr>trace := [Call 4 10 [0x48], Call 8 10 [0x48]]\<rparr>) \<and>
   callbacks resolving_device 10 = Some (Dlist.insert 6 (Dlist.insert 2 Dlist.empty)) \<and>
   all_return demo_env [6, 2] 10 [0x48] resolving_device \<and>
   receive_notification demo_env 10 [0x48] resolving_device
     = (Returns, resolving_device\<lparr>services := catalog_two,
                                     trace := [Call 6 10 [0x48], Call 2 10 [0x48]]\<rparr>) \<and>
   callbacks subscribed_device 12 = None \<and>
   receive_notification demo_env 12 [0x48] subscribed_device = (Returns, subscribed_device)"
proof -
  let ?v = "[0x48] :: bytes"
  let ?s = "Dlist.insert 2 Dlist.empty :: nat dlist"
  let ?b = "Dlist.insert 4 (Dlist.insert 8 (Dlist.insert 2 Dlist.empty)) :: nat dlist"
  let ?r = "Dlist.insert 6 (Dlist.insert 2 Dlist.empty) :: nat dlist"
  have c1: "callbacks subscribed_device 10 = Some ?s"
    and n: "callbacks subscribed_device 12 = None"
    by (simp_all add: subscribed_device_def)
  have l1: "list_of_dlist ?s = [2]" by (simp add: List.insert_def)
  have a1: "all_return demo_env [2] 10 ?v subscribed_device"
    by (simp add: subscribed_device_def dispatch_defs)
  from receive_notification_calls [of subscribed_device 10 ?s demo_env ?v "[]" 2 "[]"] c1 a1
  have r1: "receive_notification demo_env 10 ?v subscribed_device
     = (Returns, subscribed_device\<lparr>trace := [Write 11 [0x1, 0x0] False, Call 2 10 ?v]\<rparr>)"
    by (simp add: l1) (simp add: subscribed_device_def dispatch_defs)
  have c2: "callbacks blocking_device 10 = Some ?b"
    by (simp add: blocking_device_def)
  have l2: "list_of_dlist ?b = [4] @ 8 # [2]" by (simp add: List.insert_def)
  have a2: "all_return demo_env [4] 10 ?v blocking_device"
    by (simp add: blocking_device_def dispatch_defs)
  have o2: "result_of demo_env 8 10 ?v (call_all demo_env [4] 10 ?v blocking_device) = Blocks"
    by (simp add: blocking_device_def dispatch_defs)
  from receive_notification_calls [of blocking_device 10 ?b demo_env ?v "[4]" 8 "[2]"] c2 l2 a2 o2
  have "receive_notification demo_env 10 ?v blocking_device
     = (Blocks, called demo_env 8 10 ?v (call_all demo_env [4] 10 ?v blocking_device))"
    by simp
  then have r2: "receive_notification demo_env 10 ?v blocking_device
     = (Blocks, blocking_device\<lparr>trace := [Call 4 10 ?v, Call 8 10 ?v]\<rparr>)"
    by (simp add: blocking_device_def dispatch_defs)
  have c3: "callbacks resolving_device 10 = Some ?r"
    by (simp add: resolving_device_def)
  have l3: "list_of_dlist ?r = [6, 2]" by (simp add: List.insert_def)
  have a3: "all_return demo_env [6, 2] 10 ?v resolving_device"
    by (simp add: resolving_device_def dispatch_defs)
  from receive_notification_calls [of resolving_device 10 ?r demo_env ?v "[]" 6 "[]"] c3 a3
  have r3: "receive_notification demo_env 10 ?v resolving_device
     = (Returns, resolving_device\<lparr>services := catalog_two,
                                     trace := [Call 6 10 ?v, Call 2 10 ?v]\<rparr>)"
    by (simp add: l3) (simp add: resolving_device_def dispatch_defs)
  from receive_notification_calls [of subscribed_device 12 ?s demo_env ?v "[]" 2 "[]"] n
  have r4: "receive_notification demo_env 12 ?v subscribed_device = (Returns, subscribed_device)"
    by simp
  from c1 l1 a1 r1 c2 l2 a2 o2 r2 c3 a3 r3 n r4 show ?thesis by blast
qed

text \<open>
  C3 as the spec states it, with two registered callbacks that both raise: the one called
  first ends the loop, and the other one is never called, whichever comes first.
\<close>

theorem receive_notification_calls_counterexample:
  "callbacks two_raising_device 10 = Some (Dlist.insert 3 (Dlist.insert 1 Dlist.empty)) \<and>
   set (list_of_dlist (Dlist.insert 3 (Dlist.insert 1 Dlist.empty))) = {1, 3} \<and>
   receive_notification demo_env 10 [0x48] two_raising_device
     = (Raises (Raised ''callback''), two_raising_device\<lparr>trace := [Call 3 10 [0x48]]\<rparr>) \<and>
   count_list (trace (snd (receive_notification demo_env 10 [0x48] two_raising_device)))
     (Call 1 10 [0x48]) \<noteq> 1"
proof -
  have "receive_notification demo_env 10 [0x48] two_raising_device
          = (Raises (Raised ''callback''), two_raising_device\<lparr>trace := [Call 3 10 [0x48]]\<rparr>)"
    by (simp add: receive_notification_def two_raising_device_def dispatch_defs)
  then show ?thesis
    by (auto simp: two_raising_device_def List.insert_def)
qed

text \<open>
  C4, as the code has it: \<open>receive_notification\<close> leaves the table of callbacks and the
  table of recorded configurations as they were, but it catches nothing: when a callback
  of the handle raises at its turn, the callbacks before it having returned, that
  exception is the result of \<open>receive_notification\<close> and the callbacks after it are not
  called. It raises no exception but one that a callback of the handle has raised.
\<close>

theorem receive_notification_propagates:
  "callbacks (snd (receive_notification E h v self)) = callbacks self \<and>
   subscribed_handlers (snd (receive_notification E h v self)) = subscribed_handlers self \<and>
   (callbacks self h = Some cbs \<and> list_of_dlist cbs = pre @ cb # rest \<and>
    all_return E pre h v self \<and> result_of E cb h v (call_all E pre h v self) = Raises e \<longrightarrow>
      fst (receive_notification E h v self) = Raises e \<and>
      trace (snd (receive_notification E h v self))
        = trace self @ map (\<lambda>cb. Call cb h v) pre @ [Call cb h v]) \<and>
   (fst (receive_notification E h v self) = Raises e' \<longrightarrow>
      (\<exists>cbs pre cb rest. callbacks self h = Some cbs \<and> list_of_dlist cbs = pre @ cb # rest \<and>
         all_return E pre h v self \<and>
         result_of E cb h v (call_all E pre h v self) = Raises e'))"
proof (intro conjI impI)
  show "callbacks (snd (receive_notification E h v self)) = callbacks self"
    and "subscribed_handlers (snd (receive_notification E h v self)) = subscribed_handlers self"
    by (simp_all add: receive_notification_def invoke_all_tables split: option.splits)
next
  assume a: "callbacks self h = Some cbs \<and> list_of_dlist cbs = pre @ cb # rest \<and>
    all_return E pre h v self \<and> result_of E cb h v (call_all E pre h v self) = Raises e"
  then have r: "receive_notification E h v self =
      (Raises e, called E cb h v (call_all E pre h v self))"
    by (simp add: receive_notification_def invoke_all_stops)
  then show "fst (receive_notification E h v self) = Raises e" by simp
  from r show "trace (snd (receive_notification E h v self))
        = trace self @ map (\<lambda>cb. Call cb h v) pre @ [Call cb h v]"
    by (simp add: called_simps call_all_simps)
next
  assume f: "fst (receive_notification E h v self) = Raises e'"
  then obtain cbs where c: "callbacks self h = Some cbs"
    and i: "fst (invoke_all E (list_of_dlist cbs) h v self) = Raises e'"
    by (auto simp: receive_notification_def split: option.splits)
  from invoke_all_cases [of E "list_of_dlist cbs" h v self]
  show "\<exists>cbs pre cb rest. callbacks self h = Some cbs \<and> list_of_dlist cbs = pre @ cb # rest \<and>
         all_return E pre h v self \<and>
         result_of E cb h v (call_all E pre h v self) = Raises e'"
  proof
    assume "all_return E (list_of_dlist cbs) h v self"
    with i show ?thesis by (simp add: invoke_all_returns)
  next
    assume "\<exists>pre cb rest. list_of_dlist cbs = pre @ cb # rest \<and> all_return E pre h v self \<and>
      result_of E cb h v (call_all E pre h v self) \<noteq> Returns"
    then obtain pre cb rest where s: "list_of_dlist cbs = pre @ cb # rest"
      "all_return E pre h v self" "result_of E cb h v (call_all E pre h v self) \<noteq> Returns"
      by blast
    with i have "result_of E cb h v (call_all E pre h v self) = Raises e'"
      by (simp add: invoke_all_stops)
    with c s show ?thesis by blast
  qed
qed

theorem receive_notification_propagates_witness:
  "callbacks mixed_device 10
     = Some (Dlist.insert 2 (Dlist.insert 1 (Dlist.insert 4 Dlist.empty))) \<and>
   list_of_dlist (Dlist.insert 2 (Dlist.insert 1 (Dlist.insert 4 Dlist.empty))) = [2] @ 1 # [4 :: nat] \<and>
   all_return demo_env [2] 10 [0x48] mixed_device \<and>
   result_of demo_env 1 10 [0x48] (call_all demo_env [2] 10 [0x48] mixed_device)
     = Raises (Raised ''callback'') \<and>
   fst (receive_notification demo_env 10 [0x48] mixed_device) = Raises (Raised ''callback'') \<and>
   trace (snd (receive_notification demo_env 10 [0x48] mixed_device))
     = [Call 2 10 [0x48], Call 1 10 [0x48]] \<and>
   callbacks (snd (receive_notification demo_env 10 [0x48] mixed_device)) = callbacks mixed_device"
proof -
  let ?v = "[0x48] :: bytes"
  let ?m = "Dlist.insert 2 (Dlist.insert 1 (Dlist.insert 4 Dlist.empty)) :: nat dlist"
  have c: "callbacks mixed_device 10 = Some ?m"
    and t: "trace mixed_device = []"
    by (simp_all add: mixed_device_def demo_device_def init_def)
  have l: "list_of_dlist ?m = [2] @ 1 # [4]" by (simp add: List.insert_def)
  have a: "all_return demo_env [2] 10 ?v mixed_device"
    by (simp add: mixed_device_def dispatch_defs)
  have o: "result_of demo_env 1 10 ?v (call_all demo_env [2] 10 ?v mixed_device)
             = Raises (Raised ''callback'')"
    by (simp add: mixed_device_def dispatch_defs)
  note p = receive_notification_propagates [of demo_env 10 ?v mixed_device ?m "[2]" 1 "[4]"
      "Raised ''callback''" "Raised ''callback''"]
  from p c l a o t
  have "fst (receive_notification demo_env 10 ?v mixed_device) = Raises (Raised ''callback'')"
    and "trace (snd (receive_notification demo_env 10 ?v mixed_device))
           = [Call 2 10 ?v, Call 1 10 ?v]"
    and "callbacks (snd (receive_notification demo_env 10 ?v mixed_device)) = callbacks mixed_device"
    by simp_all
  with c l a o show ?thesis by blast
qed

text \<open>
  C4 as the spec states it, with one registered callback that raises: the exception is
  the result of \<open>receive_notification\<close>.
\<close>

theorem receive_notification_propagates_counterexample:
  "fst (receive_notification demo_env 10 [0x48] raising_device) = Raises (Raised ''callback'') \<and>
   fst (receive_notification demo_env 10 [0x48] raising_device) \<noteq> Returns"
  by (simp add: receive_notification_def raising_device_def dispatch_defs)

end
